theory Spec2Isabelle
  imports Main "HOL-Library.Word"
begin

section \<open>Proof Insight: the client-side proof workflow of App.jsx\<close>

text \<open>
  The repository holds one React component in two presentation variants (a plain one and
  a styled one). Both keep the same pieces of component state and the same four
  handlers \<open>onFileChange\<close>, \<open>onSign\<close>, \<open>onSubmit\<close> and \<open>onVerify\<close>; the styled
  variant adds the name of the selected file and a control that clears it.

  Each handler is embedded as a function from the component state before the call to the
  state after it together with the list of requests it made to its collaborators, in
  the order in which they were made; the result of every awaited call is an argument.
  A handler is an \<open>async\<close> function, so it is embedded a second time in two parts, what
  it does up to its first \<open>await\<close> and what it does when the awaited call has settled,
  and the component over time is a sequence of events in which pending calls settle in
  any order between clicks.
\<close>

subsection \<open>Awaited calls\<close>

text \<open>
  An awaited call either resolves with a value or throws; the handlers read only
  \<open>err.message\<close> of what was thrown, so \<open>Rejects\<close> carries that string.
\<close>

datatype 'a outcome = Rejects string | Resolves 'a

subsection \<open>Hashing the selected file\<close>

definition hexDigit :: "nat \<Rightarrow> char" where
  "hexDigit n = ''0123456789abcdef'' ! n"

text \<open>\<open>b.toString(16)\<close> for a byte: one digit below sixteen, two digits otherwise.\<close>

definition toString16 :: "8 word \<Rightarrow> string" where
  "toString16 b =
     (if unat b < 16 then [hexDigit (unat b)]
      else [hexDigit (unat b div 16), hexDigit (unat b mod 16)])"

definition padStart :: "nat \<Rightarrow> char \<Rightarrow> string \<Rightarrow> string" where
  "padStart n c s = replicate (n - length s) c @ s"

definition hexFromBuffer :: "8 word list \<Rightarrow> string" where
  "hexFromBuffer buffer = concat (map (\<lambda>b. padStart 2 (CHR ''0'') (toString16 b)) buffer)"

text \<open>
  A file is known to the component by its name and by what \<open>file.arrayBuffer()\<close> gives.
  The digest primitive \<open>crypto.subtle.digest("SHA-256", _)\<close> belongs to the platform and
  is a parameter.
\<close>

record selected_file =
  name :: string
  arrayBuffer :: "8 word list outcome"

definition sha256Hex :: "(8 word list \<Rightarrow> 8 word list outcome) \<Rightarrow> selected_file \<Rightarrow> string outcome" where
  "sha256Hex digest f =
     (case arrayBuffer f of
        Rejects m \<Rightarrow> Rejects m
      | Resolves buf \<Rightarrow>
          (case digest buf of
             Rejects m \<Rightarrow> Rejects m
           | Resolves d \<Rightarrow> Resolves (''0x'' @ hexFromBuffer d)))"

subsection \<open>The signed message\<close>

definition buildSignedMessage :: "string \<Rightarrow> string" where
  "buildSignedMessage fileHashHex = ''Proof Insight: register file hash '' @ fileHashHex"

subsection \<open>Responses of the registration service\<close>

text \<open>
  The handlers look at a parsed response body in three ways only: they read \<open>body.error\<close>
  (used when truthy, inside a template literal), they test \<open>body.found\<close> for truthiness,
  and they store the body as a whole. A body that is an object (or any other non-null
  JSON value) is therefore a record of these observations: \<open>error\<close> is \<open>None\<close> when
  \<open>body.error\<close> is falsy or missing and otherwise its rendering as a string, \<open>found\<close> is
  the truthiness of \<open>body.found\<close>, and \<open>members\<close> stands for everything else in the body
  (\<open>txHash\<close>, \<open>blockNumber\<close>, \<open>owner\<close>, \<open>timestamp\<close>). The JSON value \<open>null\<close> is kept apart,
  because reading a property of it throws.
\<close>

record body =
  error :: "string option"
  found :: bool
  members :: "(string \<times> string) list"

datatype json = JNull | JValue body

text \<open>
  The message of the \<open>TypeError\<close> raised when property \<open>k\<close> of \<open>null\<close> is read. Its
  wording is chosen by the JavaScript engine; this is the wording of V8.
\<close>

definition nullRead :: "string \<Rightarrow> string" where
  "nullRead k = ''Cannot read properties of null (reading '' @ [CHR 0x27] @ k @ [CHR 0x27] @ '')''"

text \<open>\<open>setRegisterResult(body)\<close> and \<open>setVerifyResult(body)\<close>: \<open>null\<close> is the absent result.\<close>

definition stored :: "json \<Rightarrow> body option" where
  "stored j = (case j of JNull \<Rightarrow> None | JValue b \<Rightarrow> Some b)"

record response =
  ok :: bool
  statusText :: string
  json :: "json outcome"

subsection \<open>The wallet\<close>

text \<open>
  \<open>ethereum\<close> says whether \<open>window.ethereum\<close> is there; the other fields are the results
  of the calls \<open>onSign\<close> makes, in the order it makes them. \<open>signMessage\<close> depends on the
  message it is given.
\<close>

record wallet =
  ethereum :: bool
  browserProvider :: "unit outcome"
  requestAccounts :: "unit outcome"
  getSigner :: "unit outcome"
  getAddress :: "string outcome"
  signMessage :: "string \<Rightarrow> string outcome"

subsection \<open>Component state and requests\<close>

text \<open>
  The \<open>useState\<close> cells shared by both variants. The empty string is the only falsy
  string, so \<open>!hash\<close> is \<open>hash s = []\<close>; \<open>null\<close> is \<open>None\<close>.
\<close>

record session =
  hash :: string
  sig :: string
  userAddr :: string
  status :: string
  turnstileToken :: string
  registerResult :: "body option"
  verifyResult :: "body option"

text \<open>The styled variant adds the name of the selected file.\<close>

record styled_session = session +
  selectedFileName :: string

text \<open>
  What a handler asks of the outside world: the two wallet requests, the two calls of
  \<open>fetch\<close> (with the endpoint and what is sent), and the reset of the Turnstile widget.
\<close>

datatype effect =
    RequestAccounts
  | SignMessage string
  | FetchPost string string string string string
  | FetchGet string string
  | TurnstileReset

subsection \<open>onFileChange\<close>

text \<open>
  The argument \<open>e\<close> is \<open>e.target.files?.[0]\<close>: the selected file, if there is one.
  The five resets come first; hashing follows only when a file is present.
\<close>

definition onFileChange ::
  "(8 word list \<Rightarrow> 8 word list outcome) \<Rightarrow> selected_file option \<Rightarrow>
   'a session_scheme \<Rightarrow> 'a session_scheme \<times> effect list" where
  "onFileChange digest e s =
     (let s0 = s\<lparr>hash := [], sig := [], status := [], registerResult := None,
                 verifyResult := None\<rparr>
      in case e of
           None \<Rightarrow> (s0, [])
         | Some f \<Rightarrow>
             (let s1 = s0\<lparr>status := ''Computing SHA-256...''\<rparr>
              in case sha256Hex digest f of
                   Resolves h \<Rightarrow> (s1\<lparr>hash := h, status := ''Ready to sign''\<rparr>, [])
                 | Rejects m \<Rightarrow> (s1\<lparr>status := ''Error: '' @ m\<rparr>, [])))"

text \<open>The styled variant first records the file's name, then does the same.\<close>

definition onFileChange_styled ::
  "(8 word list \<Rightarrow> 8 word list outcome) \<Rightarrow> selected_file option \<Rightarrow>
   styled_session \<Rightarrow> styled_session \<times> effect list" where
  "onFileChange_styled digest e s =
     onFileChange digest e
       (s\<lparr>selectedFileName := (case e of None \<Rightarrow> [] | Some f \<Rightarrow> name f)\<rparr>)"

subsection \<open>onSign\<close>

text \<open>
  Both early returns come before the \<open>try\<close>. Inside it the calls are made one after the
  other, and the first one that throws ends in the \<open>catch\<close>, which only writes the
  status. \<open>setUserAddr(address)\<close> stands between \<open>getAddress\<close> and \<open>signMessage\<close>.
\<close>

definition onSign :: "wallet \<Rightarrow> 'a session_scheme \<Rightarrow> 'a session_scheme \<times> effect list" where
  "onSign w s =
     (if hash s = [] then (s\<lparr>status := ''No hash to sign''\<rparr>, [])
      else if \<not> ethereum w then (s\<lparr>status := ''MetaMask not found''\<rparr>, [])
      else
        (let s1 = s\<lparr>status := ''Requesting signature from wallet...''\<rparr> in
         case browserProvider w of
           Rejects m \<Rightarrow> (s1\<lparr>status := ''Error: '' @ m\<rparr>, [])
         | Resolves _ \<Rightarrow>
        (case requestAccounts w of
           Rejects m \<Rightarrow> (s1\<lparr>status := ''Error: '' @ m\<rparr>, [RequestAccounts])
         | Resolves _ \<Rightarrow>
        (case getSigner w of
           Rejects m \<Rightarrow> (s1\<lparr>status := ''Error: '' @ m\<rparr>, [RequestAccounts])
         | Resolves _ \<Rightarrow>
        (case getAddress w of
           Rejects m \<Rightarrow> (s1\<lparr>status := ''Error: '' @ m\<rparr>, [RequestAccounts])
         | Resolves address \<Rightarrow>
        (let s2 = s1\<lparr>userAddr := address\<rparr>;
             message = buildSignedMessage (hash s)
         in case signMessage w message of
              Rejects m \<Rightarrow>
                (s2\<lparr>status := ''Error: '' @ m\<rparr>, [RequestAccounts, SignMessage message])
            | Resolves signature \<Rightarrow>
                (s2\<lparr>sig := signature, status := ''Signature obtained''\<rparr>,
                 [RequestAccounts, SignMessage message])))))))"

subsection \<open>onSubmit\<close>

text \<open>
  \<open>url\<close> is \<open>WORKER_URL\<close>, \<open>widget\<close> says whether \<open>turnstileRef.current\<close> is set (the
  reset is called through \<open>?.\<close>), and \<open>fetched\<close> is the result of the \<open>fetch\<close>. The two
  early returns come before the \<open>try\<close>; the \<open>finally\<close> block runs on every path that
  entered it. The request carries the four members of the JSON body.
\<close>

definition onSubmit ::
  "string \<Rightarrow> bool \<Rightarrow> response outcome \<Rightarrow> 'a session_scheme \<Rightarrow>
   'a session_scheme \<times> effect list" where
  "onSubmit url widget fetched s =
     (if hash s = [] \<or> sig s = [] then (s\<lparr>status := ''Hash and signature required''\<rparr>, [])
      else if turnstileToken s = [] then (s\<lparr>status := ''Please complete the CAPTCHA''\<rparr>, [])
      else
        (let s1 = s\<lparr>status := ''Sending to server...'', registerResult := None\<rparr>;
             request = FetchPost url (hash s) (sig s) (userAddr s) (turnstileToken s);
             s2 =
               (case fetched of
                  Rejects m \<Rightarrow> s1\<lparr>status := ''Error: '' @ m\<rparr>
                | Resolves res \<Rightarrow>
                    (case json res of
                       Rejects m \<Rightarrow> s1\<lparr>status := ''Error: '' @ m\<rparr>
                     | Resolves j \<Rightarrow>
                         if \<not> ok res then
                           (case j of
                              JNull \<Rightarrow> s1\<lparr>status := ''Error: '' @ nullRead ''error''\<rparr>
                            | JValue b \<Rightarrow>
                                s1\<lparr>status := ''Error: ''
                                      @ (case error b of Some e \<Rightarrow> e
                                         | None \<Rightarrow> statusText res)\<rparr>)
                         else
                           s1\<lparr>registerResult := stored j,
                              status := ''Success! Proof stored on-chain.''\<rparr>))
         in (s2\<lparr>turnstileToken := []\<rparr>,
             request # (if widget then [TurnstileReset] else []))))"

subsection \<open>onVerify\<close>

text \<open>
  \<open>newURL\<close> is the result of \<open>new URL(WORKER_URL)\<close>, which throws when the endpoint is
  not an absolute URL; the \<open>fetch\<close> is made only after it. The request carries the
  endpoint and the value of the query parameter \<open>hash\<close>. On a successful response
  \<open>setVerifyResult(body)\<close> comes before \<open>body.found\<close> is read.
\<close>

definition onVerify ::
  "string \<Rightarrow> unit outcome \<Rightarrow> response outcome \<Rightarrow> 'a session_scheme \<Rightarrow>
   'a session_scheme \<times> effect list" where
  "onVerify url newURL fetched s =
     (if hash s = [] then (s\<lparr>status := ''Please select a file first''\<rparr>, [])
      else
        (let s1 = s\<lparr>status := ''Verifying proof from blockchain...'', verifyResult := None\<rparr>
         in case newURL of
              Rejects m \<Rightarrow> (s1\<lparr>status := ''Network error: '' @ m\<rparr>, [])
            | Resolves _ \<Rightarrow>
                (case fetched of
                   Rejects m \<Rightarrow> s1\<lparr>status := ''Network error: '' @ m\<rparr>
                 | Resolves res \<Rightarrow>
                     (case json res of
                        Rejects m \<Rightarrow> s1\<lparr>status := ''Network error: '' @ m\<rparr>
                      | Resolves j \<Rightarrow>
                          if \<not> ok res then
                            (case j of
                               JNull \<Rightarrow> s1\<lparr>status := ''Network error: '' @ nullRead ''error''\<rparr>
                             | JValue b \<Rightarrow>
                                 s1\<lparr>status := ''Server error: ''
                                       @ (case error b of Some e \<Rightarrow> e
                                          | None \<Rightarrow> statusText res)\<rparr>)
                          else
                            (case j of
                               JNull \<Rightarrow>
                                 s1\<lparr>verifyResult := stored j,
                                    status := ''Network error: '' @ nullRead ''found''\<rparr>
                             | JValue b \<Rightarrow>
                                 s1\<lparr>verifyResult := stored j,
                                    status :=
                                      (if found b then ''Verification complete: Proof found.''
                                       else ''Verification complete: Proof not found.'')\<rparr>)),
                 [FetchGet url (hash s)])))"

subsection \<open>The Turnstile callback and the clear control\<close>

text \<open>\<open>onSuccess\<close> of the widget stores the token it is given.\<close>

definition onTurnstileSuccess :: "string \<Rightarrow> 'a session_scheme \<Rightarrow> 'a session_scheme" where
  "onTurnstileSuccess token s = s\<lparr>turnstileToken := token\<rparr>"

text \<open>
  The styled variant shows, while a file name is selected, a button whose handler calls
  \<open>setSelectedFileName("")\<close> and \<open>setHash("")\<close> and then assigns to
  \<open>fileInputRef.current.value\<close>. That variant declares \<open>inputRef\<close> and no \<open>fileInputRef\<close>,
  so the assignment throws a \<open>ReferenceError\<close>; the two updates were queued before it and
  React applies them. The model returns the state after them and what was thrown.
\<close>

datatype thrown = ReferenceError string

definition onClearFile :: "styled_session \<Rightarrow> styled_session \<times> thrown option" where
  "onClearFile s =
     (s\<lparr>selectedFileName := [], hash := []\<rparr>, Some (ReferenceError ''fileInputRef''))"

subsection \<open>The buttons\<close>

text \<open>
  The \<open>disabled\<close> attributes of the three buttons, the same in both variants. A disabled
  button gives no click, so its handler is not called.
\<close>

definition signDisabled :: "'a session_scheme \<Rightarrow> bool" where
  "signDisabled s = (hash s = [] \<or> sig s \<noteq> [])"

definition submitDisabled :: "'a session_scheme \<Rightarrow> bool" where
  "submitDisabled s = (sig s = [] \<or> turnstileToken s = [])"

definition verifyDisabled :: "'a session_scheme \<Rightarrow> bool" where
  "verifyDisabled s = (hash s = [])"

subsection \<open>The handlers in two parts: up to the first await, and after it\<close>

text \<open>
  A handler runs without interruption up to its first \<open>await\<close>; there it is suspended,
  and other handlers may start and end before it goes on. What is left of a suspended
  handler is a pending call. It carries the result that the awaited call will have and
  what the handler has read from the state of the render in which it was started:
  \<open>onSign\<close> builds the message from the \<open>hash\<close> it was started with. Every \<open>set...\<close>
  call stores a value that does not depend on the state at the time, so a pending call
  that goes on writes into whatever the state has become.

  \<open>onFileChange\<close> awaits \<open>sha256Hex\<close>. \<open>onSign\<close> awaits \<open>eth_requestAccounts\<close>,
  \<open>getSigner\<close> and \<open>getAddress\<close> with no write in between (one pending call), writes
  the address, calls \<open>signMessage\<close> and awaits it (a second pending call). \<open>onSubmit\<close>
  and \<open>onVerify\<close> await \<open>fetch\<close> and then \<open>res.json()\<close>, with no write in between.
\<close>

datatype task =
    HashTask "string outcome"
  | ConnectTask wallet string
  | SignTask "string outcome"
  | SubmitTask bool "response outcome"
  | VerifyTask "response outcome"

definition startFileChange ::
  "(8 word list \<Rightarrow> 8 word list outcome) \<Rightarrow> selected_file option \<Rightarrow>
   'a session_scheme \<Rightarrow> 'a session_scheme \<times> effect list \<times> task option" where
  "startFileChange digest e s =
     (let s0 = s\<lparr>hash := [], sig := [], status := [], registerResult := None,
                 verifyResult := None\<rparr>
      in case e of
           None \<Rightarrow> (s0, [], None)
         | Some f \<Rightarrow>
             (s0\<lparr>status := ''Computing SHA-256...''\<rparr>, [],
              Some (HashTask (sha256Hex digest f))))"

definition startFileChange_styled ::
  "(8 word list \<Rightarrow> 8 word list outcome) \<Rightarrow> selected_file option \<Rightarrow>
   styled_session \<Rightarrow> styled_session \<times> effect list \<times> task option" where
  "startFileChange_styled digest e s =
     startFileChange digest e
       (s\<lparr>selectedFileName := (case e of None \<Rightarrow> [] | Some f \<Rightarrow> name f)\<rparr>)"

definition startSign ::
  "wallet \<Rightarrow> 'a session_scheme \<Rightarrow> 'a session_scheme \<times> effect list \<times> task option" where
  "startSign w s =
     (if hash s = [] then (s\<lparr>status := ''No hash to sign''\<rparr>, [], None)
      else if \<not> ethereum w then (s\<lparr>status := ''MetaMask not found''\<rparr>, [], None)
      else
        (let s1 = s\<lparr>status := ''Requesting signature from wallet...''\<rparr> in
         case browserProvider w of
           Rejects m \<Rightarrow> (s1\<lparr>status := ''Error: '' @ m\<rparr>, [], None)
         | Resolves _ \<Rightarrow> (s1, [RequestAccounts], Some (ConnectTask w (hash s)))))"

definition startSubmit ::
  "string \<Rightarrow> bool \<Rightarrow> response outcome \<Rightarrow> 'a session_scheme \<Rightarrow>
   'a session_scheme \<times> effect list \<times> task option" where
  "startSubmit url widget fetched s =
     (if hash s = [] \<or> sig s = [] then
        (s\<lparr>status := ''Hash and signature required''\<rparr>, [], None)
      else if turnstileToken s = [] then
        (s\<lparr>status := ''Please complete the CAPTCHA''\<rparr>, [], None)
      else
        (s\<lparr>status := ''Sending to server...'', registerResult := None\<rparr>,
         [FetchPost url (hash s) (sig s) (userAddr s) (turnstileToken s)],
         Some (SubmitTask widget fetched)))"

definition startVerify ::
  "string \<Rightarrow> unit outcome \<Rightarrow> response outcome \<Rightarrow> 'a session_scheme \<Rightarrow>
   'a session_scheme \<times> effect list \<times> task option" where
  "startVerify url newURL fetched s =
     (if hash s = [] then (s\<lparr>status := ''Please select a file first''\<rparr>, [], None)
      else
        (let s1 = s\<lparr>status := ''Verifying proof from blockchain...'', verifyResult := None\<rparr>
         in case newURL of
              Rejects m \<Rightarrow> (s1\<lparr>status := ''Network error: '' @ m\<rparr>, [], None)
            | Resolves _ \<Rightarrow> (s1, [FetchGet url (hash s)], Some (VerifyTask fetched))))"

text \<open>
  A pending call goes on in the state \<open>s\<close> of that moment: the state after its writes,
  the requests it makes, and the pending call it leaves, if it is suspended again.
\<close>

fun resume ::
  "task \<Rightarrow> 'a session_scheme \<Rightarrow> 'a session_scheme \<times> effect list \<times> task option" where
  "resume (HashTask digested) s =
     (case digested of
        Resolves h \<Rightarrow> (s\<lparr>hash := h, status := ''Ready to sign''\<rparr>, [], None)
      | Rejects m \<Rightarrow> (s\<lparr>status := ''Error: '' @ m\<rparr>, [], None))"
| "resume (ConnectTask w h) s =
     (case requestAccounts w of
        Rejects m \<Rightarrow> (s\<lparr>status := ''Error: '' @ m\<rparr>, [], None)
      | Resolves _ \<Rightarrow>
     (case getSigner w of
        Rejects m \<Rightarrow> (s\<lparr>status := ''Error: '' @ m\<rparr>, [], None)
      | Resolves _ \<Rightarrow>
     (case getAddress w of
        Rejects m \<Rightarrow> (s\<lparr>status := ''Error: '' @ m\<rparr>, [], None)
      | Resolves address \<Rightarrow>
          (s\<lparr>userAddr := address\<rparr>, [SignMessage (buildSignedMessage h)],
           Some (SignTask (signMessage w (buildSignedMessage h)))))))"
| "resume (SignTask answer) s =
     (case answer of
        Rejects m \<Rightarrow> (s\<lparr>status := ''Error: '' @ m\<rparr>, [], None)
      | Resolves signature \<Rightarrow>
          (s\<lparr>sig := signature, status := ''Signature obtained''\<rparr>, [], None))"
| "resume (SubmitTask widget fetched) s =
     (let s2 =
        (case fetched of
           Rejects m \<Rightarrow> s\<lparr>status := ''Error: '' @ m\<rparr>
         | Resolves res \<Rightarrow>
             (case json res of
                Rejects m \<Rightarrow> s\<lparr>status := ''Error: '' @ m\<rparr>
              | Resolves j \<Rightarrow>
                  if \<not> ok res then
                    (case j of
                       JNull \<Rightarrow> s\<lparr>status := ''Error: '' @ nullRead ''error''\<rparr>
                     | JValue b \<Rightarrow>
                         s\<lparr>status := ''Error: ''
                              @ (case error b of Some e \<Rightarrow> e | None \<Rightarrow> statusText res)\<rparr>)
                  else
                    s\<lparr>registerResult := stored j,
                      status := ''Success! Proof stored on-chain.''\<rparr>))
      in (s2\<lparr>turnstileToken := []\<rparr>, if widget then [TurnstileReset] else [], None))"
| "resume (VerifyTask fetched) s =
     (case fetched of
        Rejects m \<Rightarrow> s\<lparr>status := ''Network error: '' @ m\<rparr>
      | Resolves res \<Rightarrow>
          (case json res of
             Rejects m \<Rightarrow> s\<lparr>status := ''Network error: '' @ m\<rparr>
           | Resolves j \<Rightarrow>
               if \<not> ok res then
                 (case j of
                    JNull \<Rightarrow> s\<lparr>status := ''Network error: '' @ nullRead ''error''\<rparr>
                  | JValue b \<Rightarrow>
                      s\<lparr>status := ''Server error: ''
                           @ (case error b of Some e \<Rightarrow> e | None \<Rightarrow> statusText res)\<rparr>)
               else
                 (case j of
                    JNull \<Rightarrow>
                      s\<lparr>verifyResult := stored j,
                        status := ''Network error: '' @ nullRead ''found''\<rparr>
                  | JValue b \<Rightarrow>
                      s\<lparr>verifyResult := stored j,
                        status :=
                          (if found b then ''Verification complete: Proof found.''
                           else ''Verification complete: Proof not found.'')\<rparr>)),
      [], None)"

text \<open>
  A handler that nothing interrupts: its first part, and then its pending calls one
  right after the other (no handler has more than two).
\<close>

fun finish :: "task option \<Rightarrow> 'a session_scheme \<Rightarrow> 'a session_scheme \<times> effect list" where
  "finish None s = (s, [])"
| "finish (Some t) s =
     (case resume t s of
        (s1, fx, None) \<Rightarrow> (s1, fx)
      | (s1, fx, Some t') \<Rightarrow> (case resume t' s1 of (s2, fx', _) \<Rightarrow> (s2, fx @ fx')))"

definition uninterrupted ::
  "'a session_scheme \<times> effect list \<times> task option \<Rightarrow> 'a session_scheme \<times> effect list" where
  "uninterrupted started =
     (case started of (s1, fx, t) \<Rightarrow> (case finish t s1 of (s2, fx') \<Rightarrow> (s2, fx @ fx')))"

subsection \<open>The component over time\<close>

text \<open>
  What can happen to the styled component: a file is selected, one of the three buttons
  or the clear control is clicked, the widget calls back with a token, or the pending
  call at some position settles. Each click comes with the results that the calls of
  its handler will have. A click on a disabled button does nothing, and the clear
  control is there only while a file name is selected. The system is the state of the
  component together with the pending calls. The events of the plain variant are those
  of the styled one without \<open>ClearFile\<close>.
\<close>

datatype event =
    FileChange "selected_file option"
  | Sign wallet
  | Submit bool "response outcome"
  | Verify "unit outcome" "response outcome"
  | TurnstileSuccess string
  | ClearFile
  | Settle nat

definition launch ::
  "styled_session \<times> effect list \<times> task option \<Rightarrow> task list \<Rightarrow>
   (styled_session \<times> task list) \<times> effect list" where
  "launch started ts =
     (case started of
        (s1, fx, t) \<Rightarrow> ((s1, ts @ (case t of None \<Rightarrow> [] | Some t' \<Rightarrow> [t'])), fx))"

fun act ::
  "(8 word list \<Rightarrow> 8 word list outcome) \<Rightarrow> string \<Rightarrow> event \<Rightarrow>
   styled_session \<times> task list \<Rightarrow> (styled_session \<times> task list) \<times> effect list" where
  "act digest url (FileChange e) (s, ts) = launch (startFileChange_styled digest e s) ts"
| "act digest url (Sign w) (s, ts) =
     (if signDisabled s then ((s, ts), []) else launch (startSign w s) ts)"
| "act digest url (Submit widget fetched) (s, ts) =
     (if submitDisabled s then ((s, ts), []) else launch (startSubmit url widget fetched s) ts)"
| "act digest url (Verify newURL fetched) (s, ts) =
     (if verifyDisabled s then ((s, ts), []) else launch (startVerify url newURL fetched s) ts)"
| "act digest url (TurnstileSuccess token) (s, ts) = ((onTurnstileSuccess token s, ts), [])"
| "act digest url ClearFile (s, ts) =
     (if selectedFileName s = [] then ((s, ts), []) else ((fst (onClearFile s), ts), []))"
| "act digest url (Settle i) (s, ts) =
     (if i < length ts then
        (case resume (ts ! i) s of
           (s1, fx, t) \<Rightarrow>
             ((s1, take i ts @ (case t of None \<Rightarrow> [] | Some t' \<Rightarrow> [t']) @ drop (Suc i) ts),
              fx))
      else ((s, ts), []))"

fun acts ::
  "(8 word list \<Rightarrow> 8 word list outcome) \<Rightarrow> string \<Rightarrow> event list \<Rightarrow>
   styled_session \<times> task list \<Rightarrow> (styled_session \<times> task list) \<times> effect list" where
  "acts digest url [] c = (c, [])"
| "acts digest url (e # es) c =
     (case act digest url e c of
        (c1, fx) \<Rightarrow> (case acts digest url es c1 of (c2, fx') \<Rightarrow> (c2, fx @ fx')))"






text \<open>The state in which the component is created.\<close>

definition initial :: styled_session where
  "initial =
     \<lparr>hash = [], sig = [], userAddr = [], status = [], turnstileToken = [],
      registerResult = None, verifyResult = None, selectedFileName = []\<rparr>"

subsection \<open>Sample inputs\<close>

text \<open>
  A file holding the five bytes of \<open>hello\<close>, a digest primitive that knows the SHA-256
  digest of these bytes, a wallet that signs and one whose user declines, two states of
  the component, and two responses of the service.
\<close>

definition hello_bytes :: "8 word list" where
  "hello_bytes = [0x68, 0x65, 0x6c, 0x6c, 0x6f]"

definition hello_file :: selected_file where
  "hello_file = \<lparr>name = ''hello.txt'', arrayBuffer = Resolves hello_bytes\<rparr>"

definition sample_digest :: "8 word list \<Rightarrow> 8 word list outcome" where
  "sample_digest buf =
     (if buf = hello_bytes then
        Resolves [0x2c, 0xf2, 0x4d, 0xba, 0x5f, 0xb0, 0xa3, 0x0e, 0x26, 0xe8, 0x3b, 0x2a,
                  0xc5, 0xb9, 0xe2, 0x9e, 0x1b, 0x16, 0x1e, 0x5c, 0x1f, 0xa7, 0x42, 0x5e,
                  0x73, 0x04, 0x33, 0x62, 0x93, 0x8b, 0x98, 0x24]
      else Rejects ''digest not available'')"

definition hello_hash :: string where
  "hello_hash = ''0x2cf24dba5fb0a30e26e83b2ac5b9e29e1b161e5c1fa7425e73043362938b9824''"

definition approves :: "string \<Rightarrow> string outcome" where
  "approves message = Resolves ''0x5b1c''"


definition wallet_approving :: wallet where
  "wallet_approving =
     \<lparr>ethereum = True, browserProvider = Resolves (), requestAccounts = Resolves (),
      getSigner = Resolves (), getAddress = Resolves ''0xf39F'', signMessage = approves\<rparr>"


definition ready_state :: styled_session where
  "ready_state =
     \<lparr>hash = hello_hash, sig = [], userAddr = [], status = ''Ready to sign'',
      turnstileToken = [], registerResult = None, verifyResult = None,
      selectedFileName = ''hello.txt''\<rparr>"

definition signed_state :: styled_session where
  "signed_state =
     \<lparr>hash = hello_hash, sig = ''0x77aa'', userAddr = ''0x7099'',
      status = ''Signature obtained'', turnstileToken = ''tok-1'', registerResult = None,
      verifyResult = None, selectedFileName = ''hello.txt''\<rparr>"

definition registered_state :: styled_session where
  "registered_state =
     \<lparr>hash = hello_hash, sig = ''0x77aa'', userAddr = ''0x7099'',
      status = ''Success! Proof stored on-chain.'', turnstileToken = ''tok-2'',
      registerResult = Some \<lparr>error = None, found = False, members = [(''txHash'', ''0xabc'')]\<rparr>,
      verifyResult = None, selectedFileName = ''hello.txt''\<rparr>"

definition rate_limited :: response where
  "rate_limited =
     \<lparr>ok = False, statusText = ''Internal Server Error'',
      json = Resolves (JValue \<lparr>error = Some ''rate limited'', found = False, members = []\<rparr>)\<rparr>"

definition found_body :: body where
  "found_body = \<lparr>error = None, found = True, members = [(''owner'', ''0x7099'')]\<rparr>"

definition lookup_found :: response where
  "lookup_found = \<lparr>ok = True, statusText = ''OK'', json = Resolves (JValue found_body)\<rparr>"

section \<open>Properties\<close>

subsection \<open>Hashing\<close>

lemma sha256Hex_hello: "sha256Hex sample_digest hello_file = Resolves hello_hash"
  by (simp add: sha256Hex_def sample_digest_def hello_file_def hello_bytes_def hello_hash_def
      hexFromBuffer_def padStart_def toString16_def hexDigit_def)

text \<open>
  A digest string starts with \<open>0x\<close>, so it is never the empty (falsy) string.
\<close>

lemma sha256Hex_nonempty: "sha256Hex digest f = Resolves h \<Longrightarrow> h \<noteq> []"
  by (auto simp: sha256Hex_def split: outcome.splits)

subsection \<open>A handler that is not interrupted is its parts in a row\<close>

text \<open>
  The handlers as written in the source, read from top to bottom with the result of
  each awaited call at hand, do what their first part followed at once by their pending
  calls does.
\<close>

lemma onFileChange_split:
  "onFileChange digest e s = uninterrupted (startFileChange digest e s)"
  by (simp add: onFileChange_def startFileChange_def uninterrupted_def Let_def
      split: option.split outcome.split)

lemma onFileChange_styled_split:
  "onFileChange_styled digest e s = uninterrupted (startFileChange_styled digest e s)"
  by (simp add: onFileChange_styled_def startFileChange_styled_def onFileChange_split)

lemma onSign_split: "onSign w s = uninterrupted (startSign w s)"
  by (simp add: onSign_def startSign_def uninterrupted_def Let_def split: outcome.split)

lemma onSubmit_split:
  "onSubmit url widget fetched s = uninterrupted (startSubmit url widget fetched s)"
  by (simp add: onSubmit_def startSubmit_def uninterrupted_def Let_def
      split: outcome.split json.split)

lemma onVerify_split:
  "onVerify url newURL fetched s = uninterrupted (startVerify url newURL fetched s)"
  by (simp add: onVerify_def startVerify_def uninterrupted_def Let_def
      split: outcome.split json.split)

subsection \<open>The signed message\<close>

text \<open>
  C9. \<open>buildSignedMessage\<close> returns, for every fingerprint string, the fixed text
  \<open>Proof Insight: register file hash\<close> and a space, followed by the fingerprint as it is:
  the first 34 characters are the template, the rest is the fingerprint, and two
  messages are equal exactly when their fingerprints are.
\<close>

theorem buildSignedMessage_template:
  "buildSignedMessage f = ''Proof Insight: register file hash '' @ f
   \<and> take 34 (buildSignedMessage f) = ''Proof Insight: register file hash ''
   \<and> drop 34 (buildSignedMessage f) = f
   \<and> (buildSignedMessage f = buildSignedMessage g) = (f = g)"
  by (simp add: buildSignedMessage_def)

subsection \<open>Selecting a file\<close>

text \<open>
  C1, as stated, fails. In a state that holds a signature and the address of its signer,
  selecting the file \<open>hello\<close> leaves the fingerprint set to the digest of the new file and
  leaves the signer address as it was.
\<close>

theorem onFileChange_counterexample:
  "hash (fst (onFileChange sample_digest (Some hello_file) signed_state)) =
     ''0x2cf24dba5fb0a30e26e83b2ac5b9e29e1b161e5c1fa7425e73043362938b9824''
   \<and> userAddr (fst (onFileChange sample_digest (Some hello_file) signed_state)) = ''0x7099''"
  by (simp add: onFileChange_def sha256Hex_hello signed_state_def hello_hash_def)

text \<open>
  C1, amended. In both variants and from every state: before it starts hashing,
  \<open>onFileChange\<close> empties the fingerprint and the signature and makes the registration
  and lookup records absent, and it leaves the signer address as it was. Run to its end
  without interruption, it leaves the signature empty, both records absent and the
  signer address as it was, and the fingerprint is the digest of the selected file when
  there is one and hashing it succeeds, and is empty otherwise.
\<close>

theorem onFileChange_resets:
  "hash (fst (startFileChange digest e s)) = []
   \<and> sig (fst (startFileChange digest e s)) = []
   \<and> registerResult (fst (startFileChange digest e s)) = None
   \<and> verifyResult (fst (startFileChange digest e s)) = None
   \<and> userAddr (fst (startFileChange digest e s)) = userAddr s
   \<and> uninterrupted (startFileChange digest e s) = onFileChange digest e s
   \<and> sig (fst (onFileChange digest e s)) = []
   \<and> registerResult (fst (onFileChange digest e s)) = None
   \<and> verifyResult (fst (onFileChange digest e s)) = None
   \<and> userAddr (fst (onFileChange digest e s)) = userAddr s
   \<and> hash (fst (onFileChange digest e s)) =
       (case e of None \<Rightarrow> []
        | Some f \<Rightarrow> (case sha256Hex digest f of Resolves h \<Rightarrow> h | Rejects m \<Rightarrow> []))
   \<and> hash (fst (startFileChange_styled digest e t)) = []
   \<and> sig (fst (startFileChange_styled digest e t)) = []
   \<and> registerResult (fst (startFileChange_styled digest e t)) = None
   \<and> verifyResult (fst (startFileChange_styled digest e t)) = None
   \<and> userAddr (fst (startFileChange_styled digest e t)) = userAddr t
   \<and> uninterrupted (startFileChange_styled digest e t) = onFileChange_styled digest e t
   \<and> sig (fst (onFileChange_styled digest e t)) = []
   \<and> registerResult (fst (onFileChange_styled digest e t)) = None
   \<and> verifyResult (fst (onFileChange_styled digest e t)) = None
   \<and> userAddr (fst (onFileChange_styled digest e t)) = userAddr t
   \<and> hash (fst (onFileChange_styled digest e t)) =
       (case e of None \<Rightarrow> []
        | Some f \<Rightarrow> (case sha256Hex digest f of Resolves h \<Rightarrow> h | Rejects m \<Rightarrow> []))"
proof -
  have start: "hash (fst (startFileChange digest e s)) = []
     \<and> sig (fst (startFileChange digest e s)) = []
     \<and> registerResult (fst (startFileChange digest e s)) = None
     \<and> verifyResult (fst (startFileChange digest e s)) = None
     \<and> userAddr (fst (startFileChange digest e s)) = userAddr s"
    for s :: "'x session_scheme"
    by (simp add: startFileChange_def Let_def split: option.split)
  have whole: "sig (fst (onFileChange digest e s)) = []
     \<and> registerResult (fst (onFileChange digest e s)) = None
     \<and> verifyResult (fst (onFileChange digest e s)) = None
     \<and> userAddr (fst (onFileChange digest e s)) = userAddr s
     \<and> hash (fst (onFileChange digest e s)) =
         (case e of None \<Rightarrow> []
          | Some f \<Rightarrow> (case sha256Hex digest f of Resolves h \<Rightarrow> h | Rejects m \<Rightarrow> []))"
    for s :: "'x session_scheme"
    by (simp add: onFileChange_def Let_def split: option.split outcome.split)
  show ?thesis
    using start [of s] whole [of s]
      start [of "t\<lparr>selectedFileName := (case e of None \<Rightarrow> [] | Some f \<Rightarrow> name f)\<rparr>"]
      whole [of "t\<lparr>selectedFileName := (case e of None \<Rightarrow> [] | Some f \<Rightarrow> name f)\<rparr>"]
    by (simp add: onFileChange_split onFileChange_styled_split startFileChange_styled_def
        del: fst_conv)
qed

subsection \<open>Signing\<close>















text \<open>
  C3. In every state with a non-empty signature the Sign button is disabled, so
  invoking the sign operation again is refused: the click calls no handler, makes no
  wallet request, leaves no pending call and leaves the whole state, the signature and
  the signer address with it, as it is. With a fingerprint, no signature and a wallet
  at hand, the same click does reach the wallet. Selecting a file that is hashed
  successfully empties the signature and enables the button again.
\<close>

theorem Sign_refused_when_signed:
  "(sig s \<noteq> [] \<longrightarrow> signDisabled s \<and> act digest url (Sign w) (s, ts) = ((s, ts), []))
   \<and> (hash s \<noteq> [] \<and> sig s = [] \<and> ethereum w \<and> browserProvider w = Resolves () \<longrightarrow>
        act digest url (Sign w) (s, ts) =
          ((s\<lparr>status := ''Requesting signature from wallet...''\<rparr>,
            ts @ [ConnectTask w (hash s)]), [RequestAccounts]))
   \<and> (sha256Hex digest f = Resolves h \<longrightarrow>
        \<not> signDisabled (fst (onFileChange digest (Some f) s)))"
  using sha256Hex_nonempty [of digest f h]
  by (simp add: signDisabled_def startSign_def launch_def onFileChange_def Let_def)

text \<open>
  C3 in the state that holds a signature, in the state with a fingerprint only, and at
  the file \<open>hello\<close>.
\<close>

theorem Sign_refused_when_signed_witness:
  "sig signed_state \<noteq> []
   \<and> act sample_digest ''https://worker.example/'' (Sign wallet_approving) (signed_state, []) =
       ((signed_state, []), [])
   \<and> hash ready_state \<noteq> [] \<and> sig ready_state = [] \<and> ethereum wallet_approving
   \<and> browserProvider wallet_approving = Resolves ()
   \<and> snd (act sample_digest ''https://worker.example/'' (Sign wallet_approving)
        (ready_state, [])) = [RequestAccounts]
   \<and> sha256Hex sample_digest hello_file = Resolves hello_hash
   \<and> \<not> signDisabled (fst (onFileChange sample_digest (Some hello_file) signed_state))"
proof -
  have a: "sig signed_state \<noteq> []"
    by (simp add: signed_state_def)
  have b: "hash ready_state \<noteq> []" "sig ready_state = []" "ethereum wallet_approving"
    "browserProvider wallet_approving = Resolves ()"
    by (simp_all add: ready_state_def wallet_approving_def hello_hash_def)
  show ?thesis
    using a b sha256Hex_hello
      Sign_refused_when_signed [of signed_state sample_digest "''https://worker.example/''"
        wallet_approving "[]" hello_file hello_hash]
      Sign_refused_when_signed [of ready_state sample_digest "''https://worker.example/''"
        wallet_approving "[]" hello_file hello_hash]
    by simp
qed

subsection \<open>Submitting\<close>

text \<open>
  C4. In every state in which the fingerprint, the signature or the verification token
  is empty, \<open>onSubmit\<close> only writes the status message of the check that failed: it
  makes no request, so the registration service is not contacted, and the registration
  record and the token stay as they were.
\<close>

theorem onSubmit_precondition:
  "hash s = [] \<or> sig s = [] \<or> turnstileToken s = [] \<Longrightarrow>
   onSubmit url widget fetched s =
     (s\<lparr>status := (if hash s = [] \<or> sig s = [] then ''Hash and signature required''
                    else ''Please complete the CAPTCHA'')\<rparr>, [])
   \<and> snd (onSubmit url widget fetched s) = []
   \<and> registerResult (fst (onSubmit url widget fetched s)) = registerResult s
   \<and> turnstileToken (fst (onSubmit url widget fetched s)) = turnstileToken s"
  by (auto simp: onSubmit_def)

text \<open>
  C4 in the state in which the component is created.
\<close>

theorem onSubmit_precondition_witness:
  "hash initial = []
   \<and> onSubmit ''https://worker.example/'' True (Resolves rate_limited) initial =
       (initial\<lparr>status := ''Hash and signature required''\<rparr>, [])"
  using onSubmit_precondition [of initial "''https://worker.example/''" True
      "Resolves rate_limited"]
  by (simp add: initial_def)











text \<open>
  C6, as stated, fails. A state that holds the record of an earlier registration has
  none after a Submit that the service answers with an error: the state is not
  unchanged on error.
\<close>

theorem onSubmit_erases_record_counterexample:
  "registerResult registered_state =
     Some \<lparr>error = None, found = False, members = [(''txHash'', ''0xabc'')]\<rparr>
   \<and> registerResult (fst (onSubmit ''https://worker.example/'' True (Resolves rate_limited)
        registered_state)) = None"
  by (simp add: onSubmit_def registered_state_def rate_limited_def hello_hash_def)

text \<open>
  C6, amended. A Submit attempt makes the registration record absent when it starts,
  before the request is sent. When it then receives a response that is not a success,
  it writes the status and empties the token and nothing else. So after an attempt
  that was not interrupted the registration record is absent, whether or not there was
  one before, the token is empty, the status starts with \<open>Error:\<close>, and the
  fingerprint, the signature, the signer address and the lookup record are as before.
  When the body of the response is an object with an error message, the status is
  \<open>Error:\<close> followed by that message; when it has none, by the status text of the
  response.
\<close>

theorem onSubmit_service_error:
  assumes "hash s \<noteq> []" and "sig s \<noteq> []" and "turnstileToken s \<noteq> []" and "\<not> ok res"
  shows "registerResult (fst (startSubmit url widget (Resolves res) s)) = None
    \<and> fst (resume (SubmitTask widget (Resolves res)) c) =
        c\<lparr>status := status (fst (resume (SubmitTask widget (Resolves res)) c)),
          turnstileToken := []\<rparr>
    \<and> uninterrupted (startSubmit url widget (Resolves res) s) =
        onSubmit url widget (Resolves res) s
    \<and> registerResult (fst (onSubmit url widget (Resolves res) s)) = None
    \<and> turnstileToken (fst (onSubmit url widget (Resolves res) s)) = []
    \<and> take 7 (status (fst (onSubmit url widget (Resolves res) s))) = ''Error: ''
    \<and> hash (fst (onSubmit url widget (Resolves res) s)) = hash s
    \<and> sig (fst (onSubmit url widget (Resolves res) s)) = sig s
    \<and> userAddr (fst (onSubmit url widget (Resolves res) s)) = userAddr s
    \<and> verifyResult (fst (onSubmit url widget (Resolves res) s)) = verifyResult s
    \<and> (json res = Resolves (JValue b) \<and> error b = Some e \<longrightarrow>
        status (fst (onSubmit url widget (Resolves res) s)) = ''Error: '' @ e)
    \<and> (json res = Resolves (JValue b) \<and> error b = None \<longrightarrow>
        status (fst (onSubmit url widget (Resolves res) s)) = ''Error: '' @ statusText res)"
proof -
  have start: "registerResult (fst (startSubmit url widget (Resolves res) s)) = None"
    using assms by (simp add: startSubmit_def)
  have settle: "fst (resume (SubmitTask widget (Resolves res)) c) =
        c\<lparr>status := status (fst (resume (SubmitTask widget (Resolves res)) c)),
          turnstileToken := []\<rparr>"
    using assms(4) by (simp add: Let_def split: outcome.split json.split)
  have whole: "registerResult (fst (onSubmit url widget (Resolves res) s)) = None
    \<and> turnstileToken (fst (onSubmit url widget (Resolves res) s)) = []
    \<and> take 7 (status (fst (onSubmit url widget (Resolves res) s))) = ''Error: ''
    \<and> hash (fst (onSubmit url widget (Resolves res) s)) = hash s
    \<and> sig (fst (onSubmit url widget (Resolves res) s)) = sig s
    \<and> userAddr (fst (onSubmit url widget (Resolves res) s)) = userAddr s
    \<and> verifyResult (fst (onSubmit url widget (Resolves res) s)) = verifyResult s
    \<and> (json res = Resolves (JValue b) \<and> error b = Some e \<longrightarrow>
        status (fst (onSubmit url widget (Resolves res) s)) = ''Error: '' @ e)
    \<and> (json res = Resolves (JValue b) \<and> error b = None \<longrightarrow>
        status (fst (onSubmit url widget (Resolves res) s)) = ''Error: '' @ statusText res)"
    using assms by (simp add: onSubmit_def Let_def split: outcome.split json.split option.split)
  show ?thesis
    using start settle whole onSubmit_split [of url widget "Resolves res" s] by simp
qed

text \<open>
  The amended C6 at the response with status 500 and the message \<open>rate limited\<close>, in
  the state that holds an earlier record.
\<close>

theorem onSubmit_service_error_witness:
  "hash registered_state \<noteq> [] \<and> sig registered_state \<noteq> []
   \<and> turnstileToken registered_state \<noteq> [] \<and> \<not> ok rate_limited
   \<and> json rate_limited =
       Resolves (JValue \<lparr>error = Some ''rate limited'', found = False, members = []\<rparr>)
   \<and> status (fst (onSubmit ''https://worker.example/'' True (Resolves rate_limited)
        registered_state)) = ''Error: rate limited''
   \<and> registerResult (fst (onSubmit ''https://worker.example/'' True (Resolves rate_limited)
        registered_state)) = None
   \<and> turnstileToken (fst (onSubmit ''https://worker.example/'' True (Resolves rate_limited)
        registered_state)) = []"
proof -
  have h: "hash registered_state \<noteq> []" "sig registered_state \<noteq> []"
    "turnstileToken registered_state \<noteq> []" "\<not> ok rate_limited"
    by (simp_all add: registered_state_def hello_hash_def rate_limited_def)
  have j: "json rate_limited =
       Resolves (JValue \<lparr>error = Some ''rate limited'', found = False, members = []\<rparr>)"
    by (simp add: rate_limited_def)
  show ?thesis
    using h j
      onSubmit_service_error [OF h, of "''https://worker.example/''" True registered_state
        "\<lparr>error = Some ''rate limited'', found = False, members = []\<rparr>" "''rate limited''"]
    by simp
qed

subsection \<open>Verifying\<close>

text \<open>
  C7. In every outcome \<open>onVerify\<close> returns the state it was given with at most the
  status and the lookup record changed: the fingerprint, the signature, the signer
  address, the verification token and the registration record are the same as before,
  and the only request it can make is the lookup.
\<close>

theorem onVerify_frame:
  "hash (fst (onVerify url newURL fetched s)) = hash s
   \<and> sig (fst (onVerify url newURL fetched s)) = sig s
   \<and> userAddr (fst (onVerify url newURL fetched s)) = userAddr s
   \<and> turnstileToken (fst (onVerify url newURL fetched s)) = turnstileToken s
   \<and> registerResult (fst (onVerify url newURL fetched s)) = registerResult s
   \<and> fst (onVerify url newURL fetched s) =
       s\<lparr>status := status (fst (onVerify url newURL fetched s)),
         verifyResult := verifyResult (fst (onVerify url newURL fetched s))\<rparr>
   \<and> set (snd (onVerify url newURL fetched s)) \<subseteq> {FetchGet url (hash s)}"
  by (simp add: onVerify_def Let_def split: outcome.split json.split)

text \<open>
  C8, as stated, fails. \<open>onVerify\<close> builds the address of the lookup with
  \<open>new URL(WORKER_URL)\<close>, which throws unless the configured endpoint is an absolute
  URL; with the endpoint \<open>/api/proof\<close> and a fingerprint, no lookup is made.
\<close>

theorem onVerify_relative_endpoint_counterexample:
  "hash ready_state = ''0x2cf24dba5fb0a30e26e83b2ac5b9e29e1b161e5c1fa7425e73043362938b9824''
   \<and> onVerify ''/api/proof'' (Rejects ''Invalid URL'') (Resolves lookup_found) ready_state =
       (ready_state\<lparr>status := ''Network error: Invalid URL''\<rparr>, [])"
  by (simp add: onVerify_def ready_state_def hello_hash_def)

text \<open>
  C8, amended. With an empty fingerprint \<open>onVerify\<close> only writes
  \<open>Please select a file first\<close> and makes no request. With a non-empty fingerprint it
  makes the lookup for that fingerprint whenever \<open>new URL(WORKER_URL)\<close> succeeds,
  whatever the signature, the signer address and the verification token are; when
  \<open>new URL(WORKER_URL)\<close> throws, it makes no request and the status is
  \<open>Network error:\<close> followed by the message of what was thrown.
\<close>

theorem onVerify_precondition:
  "(hash s = [] \<longrightarrow>
      onVerify url newURL fetched s = (s\<lparr>status := ''Please select a file first''\<rparr>, []))
   \<and> (hash s \<noteq> [] \<and> newURL = Resolves () \<longrightarrow>
      snd (onVerify url newURL fetched s) = [FetchGet url (hash s)])
   \<and> (hash s \<noteq> [] \<and> newURL = Rejects m \<longrightarrow>
      onVerify url newURL fetched s =
        (s\<lparr>status := ''Network error: '' @ m, verifyResult := None\<rparr>, []))"
  by (simp add: onVerify_def Let_def)

text \<open>
  The amended C8 in the state in which the component is created, and in a state that
  has a fingerprint and neither signature, address nor token, with an absolute and with
  a relative endpoint.
\<close>

theorem onVerify_precondition_witness:
  "hash initial = []
   \<and> onVerify ''https://worker.example/'' (Resolves ()) (Resolves lookup_found) initial =
       (initial\<lparr>status := ''Please select a file first''\<rparr>, [])
   \<and> hash ready_state \<noteq> [] \<and> sig ready_state = [] \<and> userAddr ready_state = []
   \<and> turnstileToken ready_state = []
   \<and> snd (onVerify ''https://worker.example/'' (Resolves ()) (Resolves lookup_found)
        ready_state) = [FetchGet ''https://worker.example/'' hello_hash]
   \<and> onVerify ''/api/proof'' (Rejects ''Invalid URL'') (Resolves lookup_found) ready_state =
       (ready_state\<lparr>status := ''Network error: Invalid URL'', verifyResult := None\<rparr>, [])"
  using onVerify_precondition [of initial "''https://worker.example/''" "Resolves ()"
      "Resolves lookup_found"]
    onVerify_precondition [of ready_state "''https://worker.example/''" "Resolves ()"
      "Resolves lookup_found"]
    onVerify_precondition [of ready_state "''/api/proof''" "Rejects ''Invalid URL''"
      "Resolves lookup_found" "''Invalid URL''"]
  by (simp add: initial_def ready_state_def hello_hash_def)

subsection \<open>Clearing the file in the styled variant\<close>

text \<open>
  C10. The clear control of the styled variant empties the selected file name and the
  fingerprint and nothing else: the signature, the signer address, the verification
  token, the registration record, the lookup record and the status are as before. A
  signature made for the fingerprint that was cleared therefore stays in the state
  beside an empty fingerprint.
\<close>

theorem onClearFile_frame:
  "fst (onClearFile s) = s\<lparr>selectedFileName := [], hash := []\<rparr>
   \<and> selectedFileName (fst (onClearFile s)) = []
   \<and> hash (fst (onClearFile s)) = []
   \<and> sig (fst (onClearFile s)) = sig s
   \<and> userAddr (fst (onClearFile s)) = userAddr s
   \<and> turnstileToken (fst (onClearFile s)) = turnstileToken s
   \<and> registerResult (fst (onClearFile s)) = registerResult s
   \<and> verifyResult (fst (onClearFile s)) = verifyResult s
   \<and> status (fst (onClearFile s)) = status s"
  by (simp add: onClearFile_def)

text \<open>
  Such a state is reached from the start: select the file \<open>hello\<close>, let the hashing
  settle, click Sign, let both wallet calls settle, click the clear control.
\<close>

lemma clear_after_sign:
  "fst (acts sample_digest ''https://worker.example/''
          [FileChange (Some hello_file), Settle 0, Sign wallet_approving, Settle 0, Settle 0,
           ClearFile]
          (initial, [])) =
     (initial\<lparr>userAddr := ''0xf39F'', sig := ''0x5b1c'', status := ''Signature obtained''\<rparr>, [])"
proof -
  have n: "name hello_file = ''hello.txt''"
    by (simp add: hello_file_def)
  show ?thesis
    by (simp add: initial_def launch_def startFileChange_styled_def startFileChange_def
        sha256Hex_hello n startSign_def signDisabled_def wallet_approving_def approves_def
        onClearFile_def hello_hash_def Let_def)
qed

end
